theory Spec2Isabelle
  imports Complex_Main "HOL-Library.Sublist" "HOL-Library.Multiset"
begin

section \<open>Configuration values\<close>

text \<open>
  The option manager (\<^verbatim>\<open>src/unnamed/part_001\<close>, ECharts' \<^verbatim>\<open>OptionManager\<close>) works on
  JSON-like configuration trees. A tree is a \<open>jsval\<close>; an object keeps its own enumerable
  keys in insertion order (the order \<^verbatim>\<open>for .. in\<close> and \<^verbatim>\<open>zrUtil.each\<close> visit them), so it
  is an association list. Numbers are rationals: the rounding of IEEE doubles is not
  modelled.
\<close>

datatype jsval =
    JUndef
  | JNull
  | JBool bool
  | JNum rat
  | JStr string
  | JArr "jsval list"
  | JObj "(string \<times> jsval) list"

type_synonym ECUnitOption = "(string \<times> jsval) list"

text \<open>JavaScript truthiness (\<^verbatim>\<open>if (x)\<close>, \<^verbatim>\<open>x && y\<close>, \<^verbatim>\<open>x || y\<close>) and \<^verbatim>\<open>x == null\<close>.\<close>

fun truthy :: "jsval \<Rightarrow> bool" where
  "truthy JUndef = False"
| "truthy JNull = False"
| "truthy (JBool b) = b"
| "truthy (JNum n) = (if n = 0 then False else True)"
| "truthy (JStr s) = (if s = [] then False else True)"
| "truthy (JArr xs) = True"
| "truthy (JObj kvs) = True"

fun is_nullish :: "jsval \<Rightarrow> bool" where
  "is_nullish JUndef = True"
| "is_nullish JNull = True"
| "is_nullish v = False"

text \<open>Property read \<^verbatim>\<open>obj[key]\<close> (\<^verbatim>\<open>undefined\<close> for a missing key) and property write
  \<^verbatim>\<open>obj[key] = v\<close> (an existing key keeps its position, a new key is appended).\<close>

fun get_prop :: "(string \<times> jsval) list \<Rightarrow> string \<Rightarrow> jsval" where
  "get_prop [] key = JUndef"
| "get_prop ((k, v) # kvs) key = (if k = key then v else get_prop kvs key)"

fun set_prop :: "(string \<times> jsval) list \<Rightarrow> string \<Rightarrow> jsval \<Rightarrow> (string \<times> jsval) list" where
  "set_prop [] key v = [(key, v)]"
| "set_prop ((k, w) # kvs) key v =
     (if k = key then (k, v) # kvs else (k, w) # set_prop kvs key v)"

section \<open>Media queries\<close>

text \<open>
  A realized viewport metric is a JavaScript number. Width and height are finite; the
  aspect ratio \<^verbatim>\<open>ecWidth / ecHeight\<close> is infinite or \<^verbatim>\<open>NaN\<close> when the height is zero.
  Otherwise \<open>js_div\<close> is the exact quotient where the source's is the nearest double, so
  an aspect-ratio constraint whose target lies within a rounding error of the quotient is
  outside this model; no statement below depends on the value of the quotient.
\<close>

datatype jsnum = Finite rat | PosInfinity | NegInfinity | NaN

definition js_div :: "rat \<Rightarrow> rat \<Rightarrow> jsnum" where
  "js_div a b =
     (if b = 0 then (if 0 < a then PosInfinity else if a < 0 then NegInfinity else NaN)
      else Finite (a / b))"

text \<open>\<^verbatim>\<open>real >= expect\<close>, \<^verbatim>\<open>real <= expect\<close> and \<^verbatim>\<open>real === expect\<close>, where \<open>real\<close> is
  \<open>None\<close> for \<^verbatim>\<open>undefined\<close> (every comparison with it is false).\<close>

fun js_ge :: "jsnum option \<Rightarrow> rat \<Rightarrow> bool" where
  "js_ge (Some (Finite a)) b = (b \<le> a)"
| "js_ge (Some PosInfinity) b = True"
| "js_ge r b = False"

fun js_le :: "jsnum option \<Rightarrow> rat \<Rightarrow> bool" where
  "js_le (Some (Finite a)) b = (a \<le> b)"
| "js_le (Some NegInfinity) b = True"
| "js_le r b = False"

fun js_eq :: "jsnum option \<Rightarrow> rat \<Rightarrow> bool" where
  "js_eq (Some (Finite a)) b = (a = b)"
| "js_eq r b = False"

text \<open>
  \<^verbatim>\<open>const QUERY_REG = /^(min|max)?(.+)$/\<close> and \<^verbatim>\<open>attr.match(QUERY_REG)\<close>: the result is
  \<open>None\<close> when the pattern fails (the empty key, or a key with a line terminator, which
  \<^verbatim>\<open>.\<close> does not match), and otherwise the two groups. The first group takes part only
  when at least one character is left for \<^verbatim>\<open>(.+)\<close>; otherwise the matcher backtracks and
  the whole key is the second group. Keys are byte strings.
\<close>

definition line_terminator :: "char \<Rightarrow> bool" where
  "line_terminator c = (c = CHR 0x0A \<or> c = CHR 0x0D)"

definition QUERY_REG :: "string \<Rightarrow> (string option \<times> string) option" where
  "QUERY_REG attr =
     (if attr = [] then None
      else if list_ex line_terminator attr then None
      else if (take 3 attr = ''min'' \<or> take 3 attr = ''max'') \<and> 3 < length attr
        then Some (Some (take 3 attr), drop 3 attr)
      else Some (None, attr))"

text \<open>\<^verbatim>\<open>String.prototype.toLowerCase\<close> on ASCII.\<close>

definition lower_char :: "char \<Rightarrow> char" where
  "lower_char c =
     (case map_of (zip ''ABCDEFGHIJKLMNOPQRSTUVWXYZ'' ''abcdefghijklmnopqrstuvwxyz'') c of
        Some d \<Rightarrow> d
      | None \<Rightarrow> c)"

definition toLowerCase :: "string \<Rightarrow> string" where
  "toLowerCase s = map lower_char s"

text \<open>The object literal \<^verbatim>\<open>realMap\<close> of \<^verbatim>\<open>applyMediaQuery\<close>, read at a key.\<close>

definition realMap :: "rat \<Rightarrow> rat \<Rightarrow> string \<Rightarrow> jsnum option" where
  "realMap ecWidth ecHeight realAttr =
     (if realAttr = ''width'' then Some (Finite ecWidth)
      else if realAttr = ''height'' then Some (Finite ecHeight)
      else if realAttr = ''aspectratio'' then Some (js_div ecWidth ecHeight)
      else None)"

text \<open>\<^verbatim>\<open>function compare(real, expect, operator)\<close>, lines 311-321.\<close>

definition compare :: "jsnum option \<Rightarrow> rat \<Rightarrow> string option \<Rightarrow> bool" where
  "compare real' expect operator =
     (if operator = Some ''min'' then js_ge real' expect
      else if operator = Some ''max'' then js_le real' expect
      else js_eq real' expect)"

type_synonym MediaQuery = "(string \<times> rat) list"

text \<open>
  \<^verbatim>\<open>function applyMediaQuery(query, ecWidth, ecHeight)\<close>, lines 284-309. The callback of
  \<^verbatim>\<open>zrUtil.each(query, ...)\<close> is \<open>query_step\<close>, threading the flag \<open>applicatable\<close>; its
  early \<^verbatim>\<open>return\<close> leaves the flag as it is.
\<close>

definition query_step :: "rat \<Rightarrow> rat \<Rightarrow> bool \<Rightarrow> string \<times> rat \<Rightarrow> bool" where
  "query_step ecWidth ecHeight applicatable kv =
     (case QUERY_REG (fst kv) of
        None \<Rightarrow> applicatable
      | Some (None, rest) \<Rightarrow> applicatable
      | Some (Some operator, rest) \<Rightarrow>
          if rest = [] then applicatable
          else if compare (realMap ecWidth ecHeight (toLowerCase rest)) (snd kv) (Some operator)
            then applicatable
          else False)"

definition applyMediaQuery :: "MediaQuery \<Rightarrow> rat \<Rightarrow> rat \<Rightarrow> bool" where
  "applyMediaQuery query ecWidth ecHeight = foldl (query_step ecWidth ecHeight) True query"


section \<open>Documents, media units and the manager's state\<close>

text \<open>
  \<^verbatim>\<open>MediaUnit\<close>: an entry of \<^verbatim>\<open>media\<close>. Both fields may be missing in a submitted
  document (\<open>None\<close> is a falsy field); \<^verbatim>\<open>{}\<close> is a present, empty query.
\<close>

record MediaUnit =
  query :: "MediaQuery option"
  option :: "ECUnitOption option"

text \<open>
  \<^verbatim>\<open>ECOption\<close>, the submitted document at its declared type: the four fields that
  \<^verbatim>\<open>parseRawOption\<close> reads, and \<open>raw_components\<close>, the document's other own keys. A falsy
  \<^verbatim>\<open>baseOption\<close>, \<^verbatim>\<open>options\<close> or \<^verbatim>\<open>media\<close> is \<open>None\<close>; an entry of \<^verbatim>\<open>media\<close> may be
  \<^verbatim>\<open>null\<close>; a truthy \<^verbatim>\<open>options\<close> is an array (the other shapes are told apart by
  \<open>RawOption\<close> below). The position of \<^verbatim>\<open>timeline\<close> among the document's keys is not
  modelled.
\<close>

record ECOption =
  raw_baseOption :: "ECUnitOption option"
  raw_timeline :: jsval
  raw_options :: "ECUnitOption list option"
  raw_media :: "MediaUnit option list option"
  raw_components :: ECUnitOption

text \<open>\<^verbatim>\<open>interface ParsedRawOption\<close>, lines 39-44.\<close>

record ParsedRawOption =
  baseOption :: ECUnitOption
  timelineOptions :: "ECUnitOption list"
  mediaDefault :: "MediaUnit option"
  mediaList :: "MediaUnit list"

text \<open>The private fields of \<^verbatim>\<open>class OptionManager\<close>, lines 54-68 (\<open>this_f\<close> is
  \<^verbatim>\<open>this._f\<close>); \<^verbatim>\<open>_api\<close> only supplies the viewport, which \<open>getMediaOption\<close> takes as
  arguments.\<close>

record OptionManager =
  this_timelineOptions :: "ECUnitOption list"
  this_mediaList :: "MediaUnit list"
  this_mediaDefault :: "MediaUnit option"
  this_currentMediaIndices :: "int list"
  this_optionBackup :: "ParsedRawOption option"
  this_newBaseOption :: "ECUnitOption option"

definition new_OptionManager :: OptionManager where
  "new_OptionManager =
     \<lparr>this_timelineOptions = [], this_mediaList = [], this_mediaDefault = None,
      this_currentMediaIndices = [], this_optionBackup = None, this_newBaseOption = None\<rparr>"

datatype error = TypeError

section \<open>Imported helpers\<close>

text \<open>
  Modelled from the spec: \<^verbatim>\<open>zrUtil.clone\<close> (zrender's deep copy, not under src/). On a
  JSON-like tree a deep copy rebuilds every array and object and keeps every leaf.
\<close>

fun clone :: "jsval \<Rightarrow> jsval"
  and clone_list :: "jsval list \<Rightarrow> jsval list"
  and clone_unit :: "ECUnitOption \<Rightarrow> ECUnitOption" where
  "clone JUndef = JUndef"
| "clone JNull = JNull"
| "clone (JBool b) = JBool b"
| "clone (JNum n) = JNum n"
| "clone (JStr s) = JStr s"
| "clone (JArr xs) = JArr (clone_list xs)"
| "clone (JObj kvs) = JObj (clone_unit kvs)"
| "clone_list [] = []"
| "clone_list (x # xs) = clone x # clone_list xs"
| "clone_unit [] = []"
| "clone_unit ((k, v) # kvs) = (k, clone v) # clone_unit kvs"

definition clone_media :: "MediaUnit \<Rightarrow> MediaUnit" where
  "clone_media u = \<lparr>query = query u, option = map_option clone_unit (option u)\<rparr>"

definition clone_ECOption :: "ECOption \<Rightarrow> ECOption" where
  "clone_ECOption raw =
     \<lparr>raw_baseOption = map_option clone_unit (raw_baseOption raw),
      raw_timeline = clone (raw_timeline raw),
      raw_options = map_option (map clone_unit) (raw_options raw),
      raw_media = map_option (map (map_option clone_media)) (raw_media raw),
      raw_components = clone_unit (raw_components raw)\<rparr>"

text \<open>
  The other imports of the module are not under src/ either: \<^verbatim>\<open>merge\<close> (zrender),
  \<^verbatim>\<open>modelUtil.normalizeToArray\<close>, \<^verbatim>\<open>modelUtil.mappingToExists\<close> and the class registry
  behind \<^verbatim>\<open>ComponentModel.hasClass\<close>. The manager takes them as an environment, so that
  what is proved of \<open>setOption\<close> and \<open>mountOption\<close> holds for every implementation of
  them. \<open>zrUtil_merge env t s\<close> is \<^verbatim>\<open>merge(t, s, true)\<close>, returning the merged target. An
  item of \<^verbatim>\<open>mappingToExists\<close> is \<^verbatim>\<open>{exist, option}\<close>, a missing field being \<open>JUndef\<close>.
\<close>

record MappingItem =
  item_exist :: jsval
  item_option :: jsval

record Env =
  ComponentModel_hasClass :: "string \<Rightarrow> bool"
  zrUtil_merge :: "jsval \<Rightarrow> jsval \<Rightarrow> jsval"
  modelUtil_normalizeToArray :: "jsval \<Rightarrow> jsval list"
  modelUtil_mappingToExists :: "jsval list \<Rightarrow> jsval list \<Rightarrow> MappingItem list"

text \<open>
  Modelled from the spec: \<^verbatim>\<open>zrUtil.merge\<close> with \<^verbatim>\<open>overwrite = true\<close> (zrender, not under
  src/). Spec 4.2: merge the incoming fragment into the existing one, overwrite scalar
  leaves, recurse into nested objects; an incoming scalar or array value overwrites the
  existing value wholesale.
\<close>

fun merge :: "jsval \<Rightarrow> jsval \<Rightarrow> jsval"
  and merge_props :: "ECUnitOption \<Rightarrow> ECUnitOption \<Rightarrow> ECUnitOption" where
  "merge target (JObj s) =
     (case target of JObj t \<Rightarrow> JObj (merge_props t s) | _ \<Rightarrow> JObj (clone_unit s))"
| "merge target JUndef = JUndef"
| "merge target JNull = JNull"
| "merge target (JBool b) = JBool b"
| "merge target (JNum n) = JNum n"
| "merge target (JStr s) = JStr s"
| "merge target (JArr xs) = JArr (clone_list xs)"
| "merge_props t [] = t"
| "merge_props t ((k, v) # s) = merge_props (set_prop t k (merge (get_prop t k) v)) s"

text \<open>
  Modelled from the spec: \<^verbatim>\<open>modelUtil.normalizeToArray\<close> (src/util/model, not under
  src/). Spec 4.2: both sides are normalized to ordered sequences, a bare object counting
  as a one-element sequence; a missing side is the empty sequence.
\<close>

fun normalizeToArray :: "jsval \<Rightarrow> jsval list" where
  "normalizeToArray (JArr xs) = xs"
| "normalizeToArray JUndef = []"
| "normalizeToArray JNull = []"
| "normalizeToArray v = [v]"

text \<open>
  Modelled from the spec: \<^verbatim>\<open>modelUtil.mappingToExists\<close> (src/util/model, not under src/),
  the ArrayReconciler of spec 4.3. A slot is an existing item with the incoming item paired
  to it, if any, tagged with its position in the incoming sequence. The incoming items are
  taken in order. An item with an explicit \<^verbatim>\<open>id\<close> that an existing item has is paired with
  that item; if the slot already had a partner, the later claim wins and the earlier
  partner becomes a new item (spec 7). Otherwise an item is paired with the slot its index
  reference points at, when that slot is unconsumed; the spec names no field for the index
  reference, so \<open>ref\<close> reads it. Otherwise an item without an identifier is paired with the
  next unconsumed existing item (spec 3: absent identifiers degrade to positional
  matching). Otherwise it is a new item. Entries retain their position (spec 4.2): the
  result lists the slots in the order of the existing sequence, then the new items in
  incoming order.
\<close>

type_synonym slot = "jsval \<times> (nat \<times> jsval) option"

definition id_of :: "jsval \<Rightarrow> jsval" where
  "id_of v = (case v of JObj kvs \<Rightarrow> get_prop kvs ''id'' | _ \<Rightarrow> JUndef)"

definition has_id :: "jsval \<Rightarrow> bool" where
  "has_id v = (if is_nullish (id_of v) then False else True)"

fun find_slot :: "(slot \<Rightarrow> bool) \<Rightarrow> slot list \<Rightarrow> nat option" where
  "find_slot P [] = None"
| "find_slot P (x # xs) = (if P x then Some 0 else map_option Suc (find_slot P xs))"

definition unconsumed :: "slot \<Rightarrow> bool" where
  "unconsumed x = (snd x = None)"

definition same_id :: "jsval \<Rightarrow> slot \<Rightarrow> bool" where
  "same_id item x = (id_of (fst x) = id_of item)"

definition target_slot :: "(jsval \<Rightarrow> nat option) \<Rightarrow> slot list \<Rightarrow> jsval \<Rightarrow> nat option" where
  "target_slot ref slots item =
     (case (if has_id item then find_slot (same_id item) slots else None) of
        Some i \<Rightarrow> Some i
      | None \<Rightarrow>
          (case (case ref item of
                   None \<Rightarrow> None
                 | Some r \<Rightarrow> if r < length slots \<and> unconsumed (slots ! r) then Some r else None) of
             Some r \<Rightarrow> Some r
           | None \<Rightarrow> if has_id item then None else find_slot unconsumed slots))"

definition displaced :: "slot \<Rightarrow> (nat \<times> jsval) list" where
  "displaced x = (case snd x of None \<Rightarrow> [] | Some p \<Rightarrow> [p])"

fun reconcile :: "(jsval \<Rightarrow> nat option) \<Rightarrow> slot list \<Rightarrow> (nat \<times> jsval) list \<Rightarrow> nat \<Rightarrow> jsval list
    \<Rightarrow> slot list \<times> (nat \<times> jsval) list" where
  "reconcile ref slots news j [] = (slots, news)"
| "reconcile ref slots news j (item # incoming) =
     (case target_slot ref slots item of
        Some i \<Rightarrow>
          reconcile ref (slots[i := (fst (slots ! i), Some (j, item))])
            (news @ displaced (slots ! i)) (Suc j) incoming
      | None \<Rightarrow> reconcile ref slots (news @ [(j, item)]) (Suc j) incoming)"

definition slot_item :: "slot \<Rightarrow> MappingItem" where
  "slot_item x =
     \<lparr>item_exist = fst x, item_option = (case snd x of None \<Rightarrow> JUndef | Some p \<Rightarrow> snd p)\<rparr>"

definition new_item :: "jsval \<Rightarrow> MappingItem" where
  "new_item v = \<lparr>item_exist = JUndef, item_option = v\<rparr>"

definition mappingToExists :: "(jsval \<Rightarrow> nat option) \<Rightarrow> jsval list \<Rightarrow> jsval list
    \<Rightarrow> MappingItem list" where
  "mappingToExists ref existing incoming =
     (case reconcile ref (map (\<lambda>e. (e, None)) existing) [] 0 incoming of
        (slots, news) \<Rightarrow> map slot_item slots @ map new_item (map snd (sort_key fst news)))"

text \<open>The environment built from the helpers modelled from the spec, over a class
  registry \<open>classes\<close> and an index reference \<open>ref\<close>.\<close>

definition spec_env :: "(string \<Rightarrow> bool) \<Rightarrow> (jsval \<Rightarrow> nat option) \<Rightarrow> Env" where
  "spec_env classes ref =
     \<lparr>ComponentModel_hasClass = classes, zrUtil_merge = merge,
      modelUtil_normalizeToArray = normalizeToArray,
      modelUtil_mappingToExists = mappingToExists ref\<rparr>"

section \<open>The option manager\<close>

text \<open>
  \<^verbatim>\<open>function mergeOption(oldOption, newOption)\<close>, lines 349-375. \<open>merge_item\<close> is the
  callback of \<^verbatim>\<open>map(mapResult, ...)\<close>, \<open>mergeOption_step\<close> the callback of
  \<^verbatim>\<open>each(newOption, ...)\<close>; the old option, mutated in place by the source, is returned.
\<close>

definition merge_item :: "Env \<Rightarrow> MappingItem \<Rightarrow> jsval" where
  "merge_item env item =
     (if truthy (item_option item) \<and> truthy (item_exist item)
        then zrUtil_merge env (item_exist item) (item_option item)
      else if truthy (item_exist item) then item_exist item
      else item_option item)"

definition mergeOption_step :: "Env \<Rightarrow> ECUnitOption \<Rightarrow> string \<times> jsval \<Rightarrow> ECUnitOption" where
  "mergeOption_step env oldOption kv =
     (let mainType = fst kv; newCptOpt = snd kv in
      if is_nullish newCptOpt then oldOption
      else
        let oldCptOpt = get_prop oldOption mainType in
        if ComponentModel_hasClass env mainType then
          let newCptOpt' = modelUtil_normalizeToArray env newCptOpt;
              oldCptOpt' = modelUtil_normalizeToArray env oldCptOpt;
              mapResult = modelUtil_mappingToExists env oldCptOpt' newCptOpt'
          in set_prop oldOption mainType (JArr (map (merge_item env) mapResult))
        else set_prop oldOption mainType (zrUtil_merge env oldCptOpt newCptOpt))"

definition mergeOption :: "Env \<Rightarrow> ECUnitOption \<Rightarrow> ECUnitOption \<Rightarrow> ECUnitOption" where
  "mergeOption env oldOption newOption = foldl (mergeOption_step env) oldOption newOption"

text \<open>
  \<^verbatim>\<open>function parseRawOption(rawOption, optionPreprocessorFuncs, isNew)\<close>, lines 208-277. A
  preprocessor mutates the fragment it is given; here it returns the fragment.
\<close>

type_synonym OptionPreprocessor = "ECUnitOption \<Rightarrow> bool \<Rightarrow> ECUnitOption"

definition or_empty :: "ECUnitOption option \<Rightarrow> ECUnitOption" where
  "or_empty b = (case b of None \<Rightarrow> [] | Some x \<Rightarrow> x)"

text \<open>The callback of \<^verbatim>\<open>each(media, ...)\<close>, lines 235-245, on the pair
  \<open>(mediaList, mediaDefault)\<close>.\<close>

definition media_step :: "MediaUnit list \<times> MediaUnit option \<Rightarrow> MediaUnit option
    \<Rightarrow> MediaUnit list \<times> MediaUnit option" where
  "media_step acc singleMedia =
     (case singleMedia of
        None \<Rightarrow> acc
      | Some m \<Rightarrow>
          (case option m of
             None \<Rightarrow> acc
           | Some opt \<Rightarrow>
               (case query m of
                  Some q \<Rightarrow> (fst acc @ [m], snd acc)
                | None \<Rightarrow> (case snd acc of None \<Rightarrow> (fst acc, Some m) | Some d \<Rightarrow> acc))))"

definition preprocess :: "OptionPreprocessor list \<Rightarrow> bool \<Rightarrow> ECUnitOption \<Rightarrow> ECUnitOption" where
  "preprocess optionPreprocessorFuncs isNew opt =
     foldl (\<lambda>opt' preProcess. preProcess opt' isNew) opt optionPreprocessorFuncs"

definition preprocess_media :: "OptionPreprocessor list \<Rightarrow> bool \<Rightarrow> MediaUnit \<Rightarrow> MediaUnit" where
  "preprocess_media optionPreprocessorFuncs isNew m =
     m\<lparr>option := map_option (preprocess optionPreprocessorFuncs isNew) (option m)\<rparr>"

definition parseRawOption :: "ECOption \<Rightarrow> OptionPreprocessor list \<Rightarrow> bool \<Rightarrow> ParsedRawOption" where
  "parseRawOption rawOption optionPreprocessorFuncs isNew =
     (let timelineOpt = raw_timeline rawOption;
          base0 = raw_baseOption rawOption;
          (base1, timelineOptions') =
            (if truthy timelineOpt \<or> raw_options rawOption \<noteq> None
             then (Some (or_empty base0),
                   (case raw_options rawOption of None \<Rightarrow> [] | Some opts \<Rightarrow> opts))
             else (base0, []));
          (base2, media') =
            (case raw_media rawOption of
               None \<Rightarrow> (base1, ([], None))
             | Some media \<Rightarrow> (Some (or_empty base1), foldl media_step ([], None) media));
          base3 = (case base2 of None \<Rightarrow> raw_components rawOption | Some b \<Rightarrow> b);
          base4 = (if truthy (get_prop base3 ''timeline'') then base3
                   else set_prop base3 ''timeline'' timelineOpt)
      in \<lparr>baseOption = preprocess optionPreprocessorFuncs isNew base4,
          timelineOptions = map (preprocess optionPreprocessorFuncs isNew) timelineOptions',
          mediaDefault = snd media',
          mediaList = map (preprocess_media optionPreprocessorFuncs isNew) (fst media')\<rparr>)"

text \<open>
  What \<^verbatim>\<open>setOption\<close> can be handed as \<^verbatim>\<open>rawOption\<close>, by the shapes the code tells apart:
  \<^verbatim>\<open>null\<close> or \<^verbatim>\<open>undefined\<close>; a primitive (boolean, number or string); an object whose
  \<^verbatim>\<open>options\<close> is truthy but has no \<^verbatim>\<open>slice\<close> method (a number, \<^verbatim>\<open>true\<close>, a plain object);
  and a document object at its declared type.
\<close>

datatype primitive = PBool bool | PNum rat | PStr string

datatype RawOption =
    Nullish
  | Primitive primitive
  | NonArrayOptions
  | Document ECOption

text \<open>
  \<^verbatim>\<open>setOption(rawOption, optionPreprocessorFuncs)\<close>, lines 83-127. Every exception is
  raised inside \<^verbatim>\<open>parseRawOption\<close>, called at line 101, before line 104 writes the first
  field of the manager: for \<^verbatim>\<open>null\<close> and \<^verbatim>\<open>undefined\<close> the read \<^verbatim>\<open>rawOption.timeline\<close> of
  line 219 is a TypeError; for a primitive, line 250 makes it the base and the write
  \<^verbatim>\<open>baseOption.timeline = timelineOpt\<close> of line 256 is a TypeError (module code is strict);
  for an \<^verbatim>\<open>options\<close> without \<^verbatim>\<open>slice\<close>, the call of line 228 is a TypeError. So \<open>Inl\<close> is
  an exception that leaves the manager as it was. Lines 84-89 only mark typed arrays, which
  a JSON-like tree does not have.
\<close>

definition setOption :: "Env \<Rightarrow> RawOption \<Rightarrow> OptionPreprocessor list \<Rightarrow> OptionManager
    \<Rightarrow> error + OptionManager" where
  "setOption env rawOption optionPreprocessorFuncs this =
     (case rawOption of
        Nullish \<Rightarrow> Inl TypeError
      | Primitive p \<Rightarrow> Inl TypeError
      | NonArrayOptions \<Rightarrow> Inl TypeError
      | Document raw \<Rightarrow>
          let rawOption' = clone_ECOption raw;
              oldOptionBackup = this_optionBackup this;
              newParsedOption =
                parseRawOption rawOption' optionPreprocessorFuncs (oldOptionBackup = None);
              this' = this\<lparr>this_newBaseOption := Some (baseOption newParsedOption)\<rparr>
          in (case oldOptionBackup of
                Some old \<Rightarrow>
                  let old1 = old\<lparr>baseOption :=
                               mergeOption env (baseOption old) (baseOption newParsedOption)\<rparr>;
                      old2 = (if timelineOptions newParsedOption = [] then old1
                              else old1\<lparr>timelineOptions := timelineOptions newParsedOption\<rparr>);
                      old3 = (if mediaList newParsedOption = [] then old2
                              else old2\<lparr>mediaList := mediaList newParsedOption\<rparr>);
                      old4 = (case mediaDefault newParsedOption of
                                None \<Rightarrow> old3
                              | Some d \<Rightarrow> old3\<lparr>mediaDefault := Some d\<rparr>)
                  in Inr (this'\<lparr>this_optionBackup := Some old4\<rparr>)
              | None \<Rightarrow> Inr (this'\<lparr>this_optionBackup := Some newParsedOption\<rparr>)))"

text \<open>The submissions \<open>D1..Dn\<close> in order, stopping at the first exception.\<close>

fun setOptions :: "Env \<Rightarrow> RawOption list \<Rightarrow> OptionPreprocessor list \<Rightarrow> OptionManager
    \<Rightarrow> error + OptionManager" where
  "setOptions env [] funcs this = Inr this"
| "setOptions env (d # ds) funcs this =
     (case setOption env d funcs this of
        Inl e \<Rightarrow> Inl e
      | Inr this' \<Rightarrow> setOptions env ds funcs this')"

text \<open>
  \<^verbatim>\<open>mountOption(isRecreate)\<close>, lines 129-145: the returned tree and the manager after the
  call. Before the first \<^verbatim>\<open>setOption\<close> the read \<^verbatim>\<open>optionBackup.timelineOptions\<close> raises
  a TypeError. The result is \<open>None\<close> for \<^verbatim>\<open>clone(undefined)\<close>.
\<close>

definition mountOption :: "bool \<Rightarrow> OptionManager \<Rightarrow> error + (ECUnitOption option \<times> OptionManager)" where
  "mountOption isRecreate this =
     (case this_optionBackup this of
        None \<Rightarrow> Inl TypeError
      | Some optionBackup \<Rightarrow>
          Inr (map_option clone_unit
                 (if isRecreate then Some (baseOption optionBackup) else this_newBaseOption this),
               this\<lparr>this_timelineOptions := map clone_unit (timelineOptions optionBackup),
                    this_mediaList := map clone_media (mediaList optionBackup),
                    this_mediaDefault := map_option clone_media (mediaDefault optionBackup),
                    this_currentMediaIndices := []\<rparr>))"

text \<open>
  \<^verbatim>\<open>getMediaOption(ecModel)\<close>, lines 166-204, with the viewport \<^verbatim>\<open>this._api.getWidth()\<close>
  and \<^verbatim>\<open>getHeight()\<close> as arguments. \<open>matching_indices\<close> is the loop of lines 180-184 (a
  unit without a query matches, \<^verbatim>\<open>each\<close> visiting nothing), \<open>media_fragment\<close> the callback
  of \<^verbatim>\<open>map(indices, ...)\<close>, which raises a TypeError on an index without a unit.
  \<^verbatim>\<open>indicesEquals\<close> compares the two arrays joined by commas, which for arrays of
  integers is equality of the arrays.
\<close>

definition unit_matches :: "MediaUnit \<Rightarrow> rat \<Rightarrow> rat \<Rightarrow> bool" where
  "unit_matches u ecWidth ecHeight =
     (case query u of None \<Rightarrow> True | Some q \<Rightarrow> applyMediaQuery q ecWidth ecHeight)"

definition matching_indices :: "MediaUnit list \<Rightarrow> rat \<Rightarrow> rat \<Rightarrow> int list" where
  "matching_indices mediaList' ecWidth ecHeight =
     map int (filter (\<lambda>i. unit_matches (mediaList' ! i) ecWidth ecHeight) [0..<length mediaList'])"

definition indicesEquals :: "int list \<Rightarrow> int list \<Rightarrow> bool" where
  "indicesEquals indices1 indices2 = (indices1 = indices2)"

definition media_fragment :: "MediaUnit list \<Rightarrow> MediaUnit option \<Rightarrow> int
    \<Rightarrow> error + ECUnitOption option" where
  "media_fragment mediaList' mediaDefault' index =
     (if index = - 1
        then (case mediaDefault' of
                None \<Rightarrow> Inl TypeError
              | Some d \<Rightarrow> Inr (map_option clone_unit (option d)))
      else if 0 \<le> index \<and> nat index < length mediaList'
        then Inr (map_option clone_unit (option (mediaList' ! nat index)))
      else Inl TypeError)"

fun map_result :: "('a \<Rightarrow> error + 'b) \<Rightarrow> 'a list \<Rightarrow> error + 'b list" where
  "map_result f [] = Inr []"
| "map_result f (x # xs) =
     (case f x of
        Inl e \<Rightarrow> Inl e
      | Inr y \<Rightarrow> (case map_result f xs of Inl e \<Rightarrow> Inl e | Inr ys \<Rightarrow> Inr (y # ys)))"

text \<open>The selection computed by lines 180-190.\<close>

definition selection :: "MediaUnit list \<Rightarrow> MediaUnit option \<Rightarrow> rat \<Rightarrow> rat \<Rightarrow> int list" where
  "selection mediaList' mediaDefault' ecWidth ecHeight =
     (let indices = matching_indices mediaList' ecWidth ecHeight
      in if indices = [] \<and> mediaDefault' \<noteq> None then [- 1] else indices)"

definition getMediaOption :: "rat \<Rightarrow> rat \<Rightarrow> OptionManager
    \<Rightarrow> error + (ECUnitOption option list \<times> OptionManager)" where
  "getMediaOption ecWidth ecHeight this =
     (let mediaList' = this_mediaList this;
          mediaDefault' = this_mediaDefault this
      in if mediaList' = [] \<and> mediaDefault' = None then Inr ([], this)
         else
           let indices = selection mediaList' mediaDefault' ecWidth ecHeight
           in if indices \<noteq> [] \<and> (if indicesEquals indices (this_currentMediaIndices this)
                                     then False else True)
              then (case map_result (media_fragment mediaList' mediaDefault') indices of
                      Inl e \<Rightarrow> Inl e
                    | Inr result \<Rightarrow> Inr (result, this\<lparr>this_currentMediaIndices := indices\<rparr>))
              else Inr ([], this\<lparr>this_currentMediaIndices := indices\<rparr>))"

section \<open>Vocabulary of the statements\<close>

text \<open>The base layer that \<open>setOption\<close> parses from a document (after its ingestion copy).\<close>

definition base_of :: "ECOption \<Rightarrow> OptionPreprocessor list \<Rightarrow> bool \<Rightarrow> ECUnitOption" where
  "base_of raw funcs isNew = baseOption (parseRawOption (clone_ECOption raw) funcs isNew)"

text \<open>A fresh manager, the submissions in order, then \<open>mountOption\<close>: the returned tree.\<close>

definition submit_then_mount :: "Env \<Rightarrow> RawOption list \<Rightarrow> OptionPreprocessor list \<Rightarrow> bool
    \<Rightarrow> error + ECUnitOption option" where
  "submit_then_mount env docs funcs isRecreate =
     (case setOptions env docs funcs new_OptionManager of
        Inl e \<Rightarrow> Inl e
      | Inr this \<Rightarrow>
          (case mountOption isRecreate this of
             Inl e \<Rightarrow> Inl e
           | Inr r \<Rightarrow> Inr (fst r)))"

text \<open>The fixed grammar \<^verbatim>\<open>(min|max)?(width|height|aspectratio)\<close> of attribute keys, the
  metric read without regard to letter case as the source does; and a key made of
  \<^verbatim>\<open>min\<close> or \<^verbatim>\<open>max\<close> and at least one more character, with no line terminator.\<close>

definition metric_name :: "string \<Rightarrow> bool" where
  "metric_name s = (s = ''width'' \<or> s = ''height'' \<or> s = ''aspectratio'')"

definition in_grammar :: "string \<Rightarrow> bool" where
  "in_grammar attr =
     (metric_name (toLowerCase attr)
      \<or> ((take 3 attr = ''min'' \<or> take 3 attr = ''max'') \<and> metric_name (toLowerCase (drop 3 attr))))"

definition operator_prefixed :: "string \<Rightarrow> bool" where
  "operator_prefixed attr =
     ((take 3 attr = ''min'' \<or> take 3 attr = ''max'') \<and> 3 < length attr
      \<and> CHR 0x0A \<notin> set attr \<and> CHR 0x0D \<notin> set attr)"

text \<open>The selection as the spec words it: every retained unit's query is evaluated and
  the matching indices are collected in document order (a unit without a query matches);
  if none matches and a default exists, the selection is the default-only set \<open>[-1]\<close>.\<close>

fun matching_from :: "nat \<Rightarrow> MediaUnit list \<Rightarrow> rat \<Rightarrow> rat \<Rightarrow> int list" where
  "matching_from i [] w h = []"
| "matching_from i (u # us) w h =
     (if (case query u of None \<Rightarrow> True | Some q \<Rightarrow> applyMediaQuery q w h)
      then int i # matching_from (Suc i) us w h
      else matching_from (Suc i) us w h)"

definition expected_selection :: "MediaUnit list \<Rightarrow> MediaUnit option \<Rightarrow> rat \<Rightarrow> rat \<Rightarrow> int list" where
  "expected_selection units dflt w h =
     (case matching_from 0 units w h of
        [] \<Rightarrow> (case dflt of None \<Rightarrow> [] | Some d \<Rightarrow> [- 1])
      | i # is \<Rightarrow> i # is)"

text \<open>The fragment a selected index stands for: the default unit's for \<open>-1\<close>.\<close>

definition fragment_of :: "MediaUnit list \<Rightarrow> MediaUnit option \<Rightarrow> int \<Rightarrow> ECUnitOption option" where
  "fragment_of units dflt index =
     (if index = - 1 then (case dflt of None \<Rightarrow> None | Some d \<Rightarrow> option d)
      else option (units ! nat index))"

text \<open>Example inputs: a document that is its own base layer, class registries, an index
  reference that no item carries, and a preprocessor that injects a default on the first
  submission only.\<close>

definition plain_document :: "ECUnitOption \<Rightarrow> ECOption" where
  "plain_document kvs =
     \<lparr>raw_baseOption = None, raw_timeline = JUndef, raw_options = None, raw_media = None,
      raw_components = kvs\<rparr>"

definition no_class :: "string \<Rightarrow> bool" where
  "no_class mainType = False"


definition no_ref :: "jsval \<Rightarrow> nat option" where
  "no_ref item = None"

definition inject_on_first :: OptionPreprocessor where
  "inject_on_first opt isNew = (if isNew then set_prop opt ''z'' (JNum 0) else opt)"

text \<open>The entries of \<^verbatim>\<open>media\<close> that are not \<^verbatim>\<open>null\<close>, in document order; an entry with an
  option and a query; an entry with an option and no query.\<close>

definition media_units :: "ECOption \<Rightarrow> MediaUnit list" where
  "media_units raw =
     concat (map (\<lambda>e. case e of None \<Rightarrow> [] | Some m \<Rightarrow> [m])
       (case raw_media raw of None \<Rightarrow> [] | Some media \<Rightarrow> media))"

definition predicated :: "MediaUnit \<Rightarrow> bool" where
  "predicated m = (option m \<noteq> None \<and> query m \<noteq> None)"

definition default_candidate :: "MediaUnit \<Rightarrow> bool" where
  "default_candidate m = (option m \<noteq> None \<and> query m = None)"

text \<open>More example inputs: the document \<^verbatim>\<open>{options: [{a: 1}], b: 2}\<close>, which has timeline
  layers and no \<^verbatim>\<open>baseOption\<close>, and a manager that already retains two timeline layers and
  one media unit.\<close>

definition options_only_document :: ECOption where
  "options_only_document =
     \<lparr>raw_baseOption = None, raw_timeline = JUndef, raw_options = Some [[(''a'', JNum 1)]],
      raw_media = None, raw_components = [(''b'', JNum 2)]\<rparr>"

definition retained_example :: ParsedRawOption where
  "retained_example =
     \<lparr>baseOption = [(''a'', JNum 1)],
      timelineOptions = [[(''x'', JNum 1)], [(''x'', JNum 2)]],
      mediaDefault = None,
      mediaList = [\<lparr>query = Some [(''minWidth'', 800)], option = Some [(''c'', JNum 3)]\<rparr>]\<rparr>"

definition manager_example :: OptionManager where
  "manager_example = new_OptionManager
     \<lparr>this_optionBackup := Some retained_example,
      this_newBaseOption := Some [(''a'', JNum 1)]\<rparr>"






text \<open>A mounted manager with the predicated unit \<^verbatim>\<open>{query: {minWidth: 800}, option: {c: 3}}\<close>
  and the default unit \<^verbatim>\<open>{option: {d: 4}}\<close>.\<close>

definition media_manager_example :: OptionManager where
  "media_manager_example = new_OptionManager
     \<lparr>this_mediaList := [\<lparr>query = Some [(''minWidth'', 800)], option = Some [(''c'', JNum 3)]\<rparr>],
      this_mediaDefault := Some \<lparr>query = None, option = Some [(''d'', JNum 4)]\<rparr>\<rparr>"

section \<open>The media query evaluator\<close>

lemma query_step_False: "query_step w h False kv = False"
  by (simp add: query_step_def split: option.splits prod.splits)

lemma foldl_query_step_False: "foldl (query_step w h) False q = False"
  by (induction q) (simp_all add: query_step_False)

lemma applyMediaQuery_append:
  "applyMediaQuery (q1 @ kv # q2) w h =
     foldl (query_step w h) (query_step w h (applyMediaQuery q1 w h) kv) q2"
  by (simp add: applyMediaQuery_def)

text \<open>
  C3 (the code departs from the claim). The claim: a constraint without a min/max prefix,
  such as \<^verbatim>\<open>{height: 600}\<close>, matches only a viewport whose height is exactly 600. In the code
  the guard \<^verbatim>\<open>!matched[1]\<close> of line 296 returns before \<^verbatim>\<open>compare\<close> is reached, so the
  constraint is skipped and the query matches at heights 599 and 601 as well, at every
  width; the \<^verbatim>\<open>// Equals\<close> branch of \<^verbatim>\<open>compare\<close> is never run.
\<close>

theorem exact_height_constraint_ignored:
  "applyMediaQuery [(''height'', 600)] w 599 \<and> applyMediaQuery [(''height'', 600)] w 601
   \<and> applyMediaQuery [(''height'', 600)] w 600"
  by (simp add: applyMediaQuery_def query_step_def QUERY_REG_def line_terminator_def)

text \<open>
  C4, the claim as stated fails: the key \<^verbatim>\<open>minFoo\<close> is not ignored. The pattern splits it
  into \<^verbatim>\<open>min\<close> and \<^verbatim>\<open>Foo\<close>, \<^verbatim>\<open>realMap['foo']\<close> is \<^verbatim>\<open>undefined\<close>, the comparison is false and
  the query \<^verbatim>\<open>{minFoo: 1}\<close> does not match, although the query without it does.
\<close>

theorem minFoo_blocks_query:
  "\<not> applyMediaQuery [(''minFoo'', 1)] 800 600 \<and> applyMediaQuery [] 800 600"
  by (simp add: applyMediaQuery_def query_step_def QUERY_REG_def line_terminator_def
      compare_def realMap_def toLowerCase_def lower_char_def)

lemma list_ex_line_terminator:
  "list_ex line_terminator attr = (CHR 0x0A \<in> set attr \<or> CHR 0x0D \<in> set attr)"
  by (auto simp: list_ex_iff line_terminator_def)

text \<open>
  C4, amended. An attribute key that does not fit the grammar is ignored (the query
  evaluates as if the constraint were not there, whatever stands before and after it),
  unless the key is \<^verbatim>\<open>min\<close> or \<^verbatim>\<open>max\<close> followed by at least one more character, with no
  line terminator, such as \<^verbatim>\<open>minFoo\<close>: such a key is not ignored, the query does not match.
\<close>

theorem key_outside_grammar_skipped_unless_prefixed:
  assumes "\<not> in_grammar attr"
  shows "applyMediaQuery (q1 @ (attr, v) # q2) w h
           = (if operator_prefixed attr then False else applyMediaQuery (q1 @ q2) w h)"
proof (cases "operator_prefixed attr")
  case True
  then have q: "QUERY_REG attr = Some (Some (take 3 attr), drop 3 attr)"
    by (auto simp: QUERY_REG_def operator_prefixed_def list_ex_line_terminator)
  from True have r: "drop 3 attr \<noteq> []"
    by (simp add: operator_prefixed_def)
  from assms True have "\<not> metric_name (toLowerCase (drop 3 attr))"
    by (auto simp: in_grammar_def operator_prefixed_def)
  then have "realMap w h (toLowerCase (drop 3 attr)) = None"
    by (simp add: realMap_def metric_name_def)
  then have "compare (realMap w h (toLowerCase (drop 3 attr))) v (Some (take 3 attr)) = False"
    by (simp add: compare_def)
  with q r have "query_step w h b (attr, v) = False" for b
    by (simp add: query_step_def)
  with True show ?thesis
    by (simp add: applyMediaQuery_append foldl_query_step_False)
next
  case False
  then have "QUERY_REG attr = None \<or> QUERY_REG attr = Some (None, attr)"
    by (auto simp: QUERY_REG_def operator_prefixed_def list_ex_line_terminator)
  then have "query_step w h a (attr, v) = a" for a
    by (auto simp: query_step_def)
  with False show ?thesis
    by (simp add: applyMediaQuery_def)
qed

theorem key_outside_grammar_skipped_unless_prefixed_witness:
  "applyMediaQuery ([(''minWidth'', 800)] @ (''foo'', 5) # [(''maxHeight'', 700)]) 900 600
     = (if operator_prefixed ''foo'' then False
        else applyMediaQuery ([(''minWidth'', 800)] @ [(''maxHeight'', 700)]) 900 600)
   \<and> applyMediaQuery ([] @ (''minFoo'', 1) # [(''minWidth'', 800)]) 900 600
     = (if operator_prefixed ''minFoo'' then False
        else applyMediaQuery ([] @ [(''minWidth'', 800)]) 900 600)"
proof -
  have h1: "\<not> in_grammar ''foo''"
    by (simp add: in_grammar_def metric_name_def toLowerCase_def lower_char_def)
  have h2: "\<not> in_grammar ''minFoo''"
    by (simp add: in_grammar_def metric_name_def toLowerCase_def lower_char_def)
  from key_outside_grammar_skipped_unless_prefixed [OF h1]
    key_outside_grammar_skipped_unless_prefixed [OF h2]
  show ?thesis by (rule conjI)
qed

section \<open>Media selection\<close>

lemma clone_id: "clone v = v" and clone_list_id: "clone_list xs = xs"
  and clone_unit_id: "clone_unit kvs = kvs"
  by (induction v and xs and kvs rule: clone_clone_list_clone_unit.induct) simp_all

lemma map_option_clone_unit: "map_option clone_unit x = x"
  by (cases x) (simp_all add: clone_unit_id)

lemma matching_indices_range:
  "i \<in> set (matching_indices ml w h) \<Longrightarrow> 0 \<le> i \<and> nat i < length ml"
  by (auto simp: matching_indices_def)

lemma matching_indices_sorted: "sorted_wrt (<) (matching_indices ml w h)"
  by (simp add: matching_indices_def sorted_wrt_map sorted_wrt_filter
      flip: sorted_wrt_iff_nth_less strict_sorted_iff)

lemma map_result_Inr:
  "(\<And>x. x \<in> set xs \<Longrightarrow> f x = Inr (g x)) \<Longrightarrow> map_result f xs = Inr (map g xs)"
  by (induction xs) simp_all

lemma selection_cases:
  "selection ml md w h = matching_indices ml w h
   \<or> (selection ml md w h = [- 1] \<and> md \<noteq> None)"
  by (simp add: selection_def Let_def)

lemma selection_fragments:
  "map_result (media_fragment ml md) (selection ml md w h)
     = Inr (map (fragment_of ml md) (selection ml md w h))"
proof (rule map_result_Inr)
  fix x assume x: "x \<in> set (selection ml md w h)"
  from selection_cases [of ml md w h] show "media_fragment ml md x = Inr (fragment_of ml md x)"
  proof
    assume "selection ml md w h = matching_indices ml w h"
    with x have "0 \<le> x \<and> nat x < length ml" using matching_indices_range by simp
    then show ?thesis
      by (simp add: media_fragment_def fragment_of_def map_option_clone_unit)
  next
    assume "selection ml md w h = [- 1] \<and> md \<noteq> None"
    with x show ?thesis
      by (auto simp: media_fragment_def fragment_of_def map_option_clone_unit)
  qed
qed

lemma selection_sorted: "sorted_wrt (<) (selection ml md w h)"
  using selection_cases [of ml md w h] matching_indices_sorted [of ml w h] by auto

lemma selection_empty: "selection [] None w h = []"
  by (simp add: selection_def matching_indices_def)

lemma getMediaOption_result:
  "getMediaOption w h s =
     Inr (if selection (this_mediaList s) (this_mediaDefault s) w h = this_currentMediaIndices s
          then [] else map (fragment_of (this_mediaList s) (this_mediaDefault s))
                 (selection (this_mediaList s) (this_mediaDefault s) w h),
          if this_mediaList s = [] \<and> this_mediaDefault s = None then s
          else s\<lparr>this_currentMediaIndices :=
                   selection (this_mediaList s) (this_mediaDefault s) w h\<rparr>)"
  by (auto simp: getMediaOption_def Let_def indicesEquals_def selection_fragments selection_empty)

lemma matching_from_filter:
  "matching_from k ml w h
     = map (\<lambda>i. int (i + k)) (filter (\<lambda>i. unit_matches (ml ! i) w h) [0..<length ml])"
proof (induction ml arbitrary: k)
  case Nil
  then show ?case by simp
next
  case (Cons u us)
  have u: "[0..<length (u # us)] = 0 # map Suc [0..<length us]"
    by (simp add: upt_conv_Cons map_Suc_upt del: upt_Suc)
  show ?case
    unfolding u
    by (simp add: Cons.IH filter_map comp_def unit_matches_def)
qed

lemma selection_expected: "selection ml md w h = expected_selection ml md w h"
  by (simp add: selection_def expected_selection_def matching_indices_def
      matching_from_filter [of 0] Let_def split: list.splits option.splits)

lemma expected_selection_empty: "expected_selection [] None w h = []"
  by (simp add: expected_selection_def)

text \<open>
  C5. Two successive \<open>getMediaOption\<close> evaluations, at any two viewports and from any
  state of the manager, both return. The selection of an evaluation is the list of the
  indices of the matching predicated units in document order, or \<open>[-1]\<close> when none matches
  and a default exists. An evaluation returns the empty result when its selection is the
  recorded one, which for the second evaluation is the selection of the first; otherwise
  it returns the copies of the selected fragments, one for each index of the selection in
  order, the selection is strictly ascending, and it is recorded.
\<close>

theorem getMediaOption_selection_stability:
  "\<exists>r1 s1 r2 s2.
     getMediaOption w1 h1 s = Inr (r1, s1) \<and> getMediaOption w2 h2 s1 = Inr (r2, s2)
     \<and> r1 = (if expected_selection (this_mediaList s) (this_mediaDefault s) w1 h1
                = this_currentMediaIndices s
             then []
             else map (fragment_of (this_mediaList s) (this_mediaDefault s))
                    (expected_selection (this_mediaList s) (this_mediaDefault s) w1 h1))
     \<and> r2 = (if expected_selection (this_mediaList s) (this_mediaDefault s) w2 h2
                = expected_selection (this_mediaList s) (this_mediaDefault s) w1 h1
             then []
             else map (fragment_of (this_mediaList s) (this_mediaDefault s))
                    (expected_selection (this_mediaList s) (this_mediaDefault s) w2 h2))
     \<and> sorted_wrt (<) (expected_selection (this_mediaList s) (this_mediaDefault s) w2 h2)
     \<and> ((this_mediaList s = [] \<and> this_mediaDefault s = None)
         \<or> this_currentMediaIndices s2
            = expected_selection (this_mediaList s) (this_mediaDefault s) w2 h2)"
  using selection_sorted [of "this_mediaList s" "this_mediaDefault s" w2 h2]
  unfolding selection_expected
  by (auto simp: getMediaOption_result selection_expected expected_selection_empty)

text \<open>The scenario of the spec: with the query \<^verbatim>\<open>{minWidth: 800}\<close>, the evaluation at width
  900 returns the unit's fragment, the next at width 850 returns nothing, and the next at
  width 700 returns the default fragment.\<close>

lemma media_selection_scenario:
  "getMediaOption 900 600 media_manager_example
     = Inr ([Some [(''c'', JNum 3)]], media_manager_example\<lparr>this_currentMediaIndices := [0]\<rparr>)
   \<and> getMediaOption 850 600 (media_manager_example\<lparr>this_currentMediaIndices := [0]\<rparr>)
     = Inr ([], media_manager_example\<lparr>this_currentMediaIndices := [0]\<rparr>)
   \<and> getMediaOption 700 600 (media_manager_example\<lparr>this_currentMediaIndices := [0]\<rparr>)
     = Inr ([Some [(''d'', JNum 4)]], media_manager_example\<lparr>this_currentMediaIndices := [- 1]\<rparr>)"
  by (simp add: getMediaOption_def Let_def selection_def matching_indices_def unit_matches_def
      applyMediaQuery_def query_step_def QUERY_REG_def line_terminator_def compare_def
      realMap_def toLowerCase_def lower_char_def indicesEquals_def media_fragment_def
      media_manager_example_def new_OptionManager_def)

section \<open>Submissions and resolution\<close>

lemma setOption_first:
  "this_optionBackup this = None \<Longrightarrow>
   setOption env (Document raw) funcs this =
     Inr (this\<lparr>this_newBaseOption := Some (base_of raw funcs True),
              this_optionBackup := Some (parseRawOption (clone_ECOption raw) funcs True)\<rparr>)"
  by (simp add: setOption_def base_of_def Let_def)

lemma setOption_later:
  assumes "this_optionBackup this = Some old"
  shows "\<exists>this' old'. setOption env (Document raw) funcs this = Inr this'
     \<and> this_optionBackup this' = Some old'
     \<and> baseOption old' = mergeOption env (baseOption old) (base_of raw funcs False)
     \<and> this_newBaseOption this' = Some (base_of raw funcs False)"
  using assms by (simp add: setOption_def base_of_def Let_def split: option.splits)

lemma setOptions_later:
  "this_optionBackup this = Some old \<Longrightarrow>
   \<exists>this' old'. setOptions env (map Document ds) funcs this = Inr this'
     \<and> this_optionBackup this' = Some old'
     \<and> baseOption old' =
         foldl (mergeOption env) (baseOption old) (map (\<lambda>d. base_of d funcs False) ds)
     \<and> this_newBaseOption this' =
         (if ds = [] then this_newBaseOption this else Some (base_of (last ds) funcs False))"
proof (induction ds arbitrary: this old)
  case Nil
  then show ?case by simp
next
  case (Cons d ds)
  from setOption_later [where env = env and raw = d and funcs = funcs, OF Cons.prems]
  obtain this1 old1 where s: "setOption env (Document d) funcs this = Inr this1"
    and b: "this_optionBackup this1 = Some old1"
    and m: "baseOption old1 = mergeOption env (baseOption old) (base_of d funcs False)"
    and n: "this_newBaseOption this1 = Some (base_of d funcs False)"
    by blast
  from Cons.IH [OF b] s m n show ?case by auto
qed

lemma setOptions_all:
  "\<exists>this' old'. setOptions env (Document d # map Document ds) funcs new_OptionManager = Inr this'
     \<and> this_optionBackup this' = Some old'
     \<and> baseOption old' =
         foldl (mergeOption env) (base_of d funcs True) (map (\<lambda>d. base_of d funcs False) ds)
     \<and> this_newBaseOption this' = Some (base_of (last (d # ds)) funcs (ds = []))"
proof -
  let ?s1 = "new_OptionManager\<lparr>this_newBaseOption := Some (base_of d funcs True),
              this_optionBackup := Some (parseRawOption (clone_ECOption d) funcs True)\<rparr>"
  have f: "setOption env (Document d) funcs new_OptionManager = Inr ?s1"
    by (rule setOption_first) (simp add: new_OptionManager_def)
  have b: "this_optionBackup ?s1 = Some (parseRawOption (clone_ECOption d) funcs True)"
    by simp
  from setOptions_later [where env = env and ds = ds and funcs = funcs, OF b] f show ?thesis
    by (auto simp: base_of_def)
qed

lemmas run_simps = submit_then_mount_def setOption_def mountOption_def parseRawOption_def
  clone_ECOption_def plain_document_def new_OptionManager_def mergeOption_def
  mergeOption_step_def spec_env_def no_class_def no_ref_def preprocess_def Let_def
  base_of_def inject_on_first_def preprocess_media_def

text \<open>
  C1, the claim as stated fails: after the submissions \<^verbatim>\<open>{a: 1}\<close> and \<^verbatim>\<open>{a: 2}\<close>,
  \<open>mountOption\<close> in recreate mode returns a tree in which \<^verbatim>\<open>a\<close> is 2, while the base layer
  parsed from the first submission alone has \<^verbatim>\<open>a\<close> at 1. Line 109 merges every later base
  into the base of the backup.
\<close>

theorem recreate_not_first_base:
  "submit_then_mount (spec_env no_class no_ref)
      [Document (plain_document [(''a'', JNum 1)]), Document (plain_document [(''a'', JNum 2)])] [] True
     = Inr (Some [(''a'', JNum 2), (''timeline'', JUndef)])
   \<and> base_of (plain_document [(''a'', JNum 1)]) [] True = [(''a'', JNum 1), (''timeline'', JUndef)]"
  by (simp add: run_simps)

text \<open>
  C1, amended. For every sequence of submitted documents \<open>D1..Dn\<close>, \<open>mountOption\<close> in
  recreate mode returns a copy of the base of the backup, which is the base layer parsed
  from \<open>D1\<close> with the base layers parsed from \<open>D2..Dn\<close> folded into it by \<open>mergeOption\<close>
  in submission order, for every implementation of the imported helpers.
\<close>

theorem recreate_returns_cumulative_merge:
  "submit_then_mount env (Document d # map Document ds) funcs True =
     Inr (Some (foldl (mergeOption env) (base_of d funcs True)
                  (map (\<lambda>d'. base_of d' funcs False) ds)))"
  using setOptions_all [of env d ds funcs]
  by (auto simp: submit_then_mount_def mountOption_def clone_unit_id)

text \<open>
  C2, the claim as stated fails: after the submissions \<^verbatim>\<open>{a: 1}\<close> and \<^verbatim>\<open>{b: 2}\<close>,
  \<open>mountOption(false)\<close> returns a tree without the key \<^verbatim>\<open>a\<close>, while the cumulative merge
  of the two base layers has it.
\<close>

theorem mount_not_cumulative:
  "submit_then_mount (spec_env no_class no_ref)
      [Document (plain_document [(''a'', JNum 1)]), Document (plain_document [(''b'', JNum 2)])] [] False
     = Inr (Some [(''b'', JNum 2), (''timeline'', JUndef)])
   \<and> mergeOption (spec_env no_class no_ref)
       (base_of (plain_document [(''a'', JNum 1)]) [] True)
       (base_of (plain_document [(''b'', JNum 2)]) [] False)
     = [(''a'', JNum 1), (''timeline'', JUndef), (''b'', JNum 2)]"
  by (simp add: run_simps)

text \<open>
  C2, amended. For every sequence of submitted documents \<open>D1..Dn\<close>, \<open>mountOption(false)\<close>
  returns a copy of \<^verbatim>\<open>_newBaseOption\<close>, the base layer parsed from the last submission
  \<open>Dn\<close> alone (parsed as a first submission only when \<open>n = 1\<close>); no earlier base is merged
  into it.
\<close>

theorem mount_returns_latest_base:
  "submit_then_mount env (Document d # map Document ds) funcs False =
     Inr (Some (base_of (last (d # ds)) funcs (ds = [])))"
  using setOptions_all [of env d ds funcs]
  by (auto simp: submit_then_mount_def mountOption_def clone_unit_id)

section \<open>Parsing and retained layers\<close>

lemma media_step_eq:
  "media_step (ml, md) e =
     (case e of
        None \<Rightarrow> (ml, md)
      | Some m \<Rightarrow>
          if predicated m then (ml @ [m], md)
          else if default_candidate m \<and> md = None then (ml, Some m)
          else (ml, md))"
  by (auto simp: media_step_def predicated_def default_candidate_def split: option.splits)

lemma foldl_media_step:
  "foldl media_step (ml, md) media =
     (ml @ filter predicated (concat (map (\<lambda>e. case e of None \<Rightarrow> [] | Some m \<Rightarrow> [m]) media)),
      case md of
        Some d \<Rightarrow> Some d
      | None \<Rightarrow> find default_candidate (concat (map (\<lambda>e. case e of None \<Rightarrow> [] | Some m \<Rightarrow> [m]) media)))"
proof (induction media arbitrary: ml md)
  case Nil
  then show ?case by (simp split: option.splits)
next
  case (Cons e media)
  show ?case
    unfolding foldl_Cons media_step_eq
    by (cases e; cases md) (auto simp: Cons.IH predicated_def default_candidate_def)
qed

lemma parse_media:
  "mediaList (parseRawOption raw funcs isNew)
     = map (preprocess_media funcs isNew) (filter predicated (media_units raw))
   \<and> mediaDefault (parseRawOption raw funcs isNew) = find default_candidate (media_units raw)"
  by (simp add: parseRawOption_def Let_def media_units_def foldl_media_step
      split: prod.splits option.splits)

lemma parse_timelineOptions:
  "timelineOptions (parseRawOption raw funcs isNew)
     = map (preprocess funcs isNew) (case raw_options raw of None \<Rightarrow> [] | Some opts \<Rightarrow> opts)"
  by (simp add: parseRawOption_def Let_def split: prod.splits option.splits)

lemma clone_media_id: "clone_media u = u"
  by (simp add: clone_media_def map_option_clone_unit)

text \<open>
  C10. Parsing a document keeps of its \<^verbatim>\<open>media\<close> entries, in document order, exactly those
  with both an option and a query as the predicated list (their fragments preprocessed),
  and the first entry with an option and no query as the default. An entry without an
  option is in neither, with or without a query; later entries without a query are not
  the default.
\<close>

theorem media_entry_without_option_dropped:
  "mediaList (parseRawOption raw funcs isNew)
     = map (preprocess_media funcs isNew) (filter predicated (media_units raw))
   \<and> mediaDefault (parseRawOption raw funcs isNew) = find default_candidate (media_units raw)"
  by (rule parse_media)

lemma setOption_retained:
  assumes "this_optionBackup this = Some old"
  shows "\<exists>this' new. setOption env (Document raw) funcs this = Inr this'
     \<and> this_optionBackup this' = Some new
     \<and> timelineOptions new =
         (if timelineOptions (parseRawOption (clone_ECOption raw) funcs False) = []
          then timelineOptions old
          else timelineOptions (parseRawOption (clone_ECOption raw) funcs False))
     \<and> mediaList new =
         (if mediaList (parseRawOption (clone_ECOption raw) funcs False) = []
          then mediaList old
          else mediaList (parseRawOption (clone_ECOption raw) funcs False))
     \<and> mediaDefault new =
         (case mediaDefault (parseRawOption (clone_ECOption raw) funcs False) of
            None \<Rightarrow> mediaDefault old
          | Some d \<Rightarrow> Some d)
     \<and> this_timelineOptions this' = this_timelineOptions this
     \<and> this_mediaList this' = this_mediaList this
     \<and> this_mediaDefault this' = this_mediaDefault this"
  using assms by (simp add: setOption_def Let_def split: option.splits)

lemma clone_ECOption_id: "clone_ECOption raw = raw"
proof -
  have a: "clone_unit = id"
    by (rule ext) (simp add: clone_unit_id)
  have b: "clone_media = id"
    by (rule ext) (simp add: clone_media_id)
  show ?thesis
    by (simp add: clone_ECOption_def clone_id a b option.map_id0 list.map_id0)
qed

text \<open>
  C7. On a \<open>setOption\<close> that is not the first (a backup exists), the call returns, and the
  retained timeline layers are those of the new submission when its \<^verbatim>\<open>options\<close> is a
  non-empty sequence and are otherwise untouched; likewise the retained media list is
  replaced only by a non-empty parsed media list, and the retained default only by a
  parsed default, each independently of the other two. The mounted copies are untouched.
\<close>

theorem retained_layers_replaced_only_when_supplied:
  assumes "this_optionBackup this = Some old"
  shows "\<exists>this' new. setOption env (Document raw) funcs this = Inr this'
     \<and> this_optionBackup this' = Some new
     \<and> timelineOptions new =
         (if raw_options raw = None \<or> raw_options raw = Some []
          then timelineOptions old
          else timelineOptions (parseRawOption raw funcs False))
     \<and> mediaList new =
         (if mediaList (parseRawOption raw funcs False) = []
          then mediaList old
          else mediaList (parseRawOption raw funcs False))
     \<and> mediaDefault new =
         (case mediaDefault (parseRawOption raw funcs False) of
            None \<Rightarrow> mediaDefault old
          | Some d \<Rightarrow> Some d)
     \<and> this_timelineOptions this' = this_timelineOptions this
     \<and> this_mediaList this' = this_mediaList this
     \<and> this_mediaDefault this' = this_mediaDefault this"
proof -
  have e: "(timelineOptions (parseRawOption raw funcs False) = [])
           = (raw_options raw = None \<or> raw_options raw = Some [])"
    by (auto simp: parse_timelineOptions split: option.splits)
  from setOption_retained [where env = env and raw = raw and funcs = funcs, OF assms]
  show ?thesis
    unfolding clone_ECOption_id e by simp
qed

theorem retained_layers_replaced_only_when_supplied_witness:
  "\<exists>this' new. setOption (spec_env no_class no_ref) (Document options_only_document) []
        manager_example = Inr this'
     \<and> this_optionBackup this' = Some new
     \<and> timelineOptions new =
         (if raw_options options_only_document = None
             \<or> raw_options options_only_document = Some []
          then timelineOptions retained_example
          else timelineOptions (parseRawOption options_only_document [] False))
     \<and> mediaList new =
         (if mediaList (parseRawOption options_only_document [] False) = []
          then mediaList retained_example
          else mediaList (parseRawOption options_only_document [] False))
     \<and> mediaDefault new =
         (case mediaDefault (parseRawOption options_only_document [] False) of
            None \<Rightarrow> mediaDefault retained_example
          | Some d \<Rightarrow> Some d)
     \<and> this_timelineOptions this' = this_timelineOptions manager_example
     \<and> this_mediaList this' = this_mediaList manager_example
     \<and> this_mediaDefault this' = this_mediaDefault manager_example"
proof -
  have h: "this_optionBackup manager_example = Some retained_example"
    by (simp add: manager_example_def)
  show ?thesis
    by (rule retained_layers_replaced_only_when_supplied [OF h])
qed

lemma preprocess_flag:
  "\<forall>p\<in>set funcs. \<forall>opt. p opt False = p opt True \<Longrightarrow>
     preprocess funcs False = preprocess funcs True"
proof (rule ext)
  fix opt
  assume "\<forall>p\<in>set funcs. \<forall>opt. p opt False = p opt True"
  then show "preprocess funcs False opt = preprocess funcs True opt"
    unfolding preprocess_def by (induction funcs arbitrary: opt) simp_all
qed

lemma base_of_flag:
  assumes "\<forall>p\<in>set funcs. \<forall>opt. p opt False = p opt True"
  shows "base_of d funcs False = base_of d funcs True"
  by (simp add: base_of_def parseRawOption_def Let_def preprocess_flag [OF assms]
      split: prod.splits)

text \<open>
  C8, amended. When no preprocessor depends on the first-submission flag, submitting a
  document once and then \<open>mountOption(false)\<close> yields the same tree as submitting it twice
  and then \<open>mountOption(false)\<close>, for every document (scalar-only or not).
\<close>

theorem resubmission_unchanged_for_flag_blind_preprocessors:
  assumes "\<forall>p\<in>set funcs. \<forall>opt. p opt False = p opt True"
  shows "submit_then_mount env [Document d] funcs False
           = submit_then_mount env [Document d, Document d] funcs False"
proof -
  from setOptions_all [of env d "[]" funcs] setOptions_all [of env d "[d]" funcs]
  show ?thesis
    by (auto simp: submit_then_mount_def mountOption_def base_of_flag [OF assms])
qed

theorem resubmission_unchanged_for_flag_blind_preprocessors_witness:
  "submit_then_mount (spec_env no_class no_ref) [Document (plain_document [(''a'', JNum 1)])] [] False
     = submit_then_mount (spec_env no_class no_ref)
         [Document (plain_document [(''a'', JNum 1)]), Document (plain_document [(''a'', JNum 1)])]
         [] False"
proof -
  have h: "\<forall>p\<in>set ([] :: OptionPreprocessor list). \<forall>opt. p opt False = p opt True"
    by simp
  show ?thesis
    by (rule resubmission_unchanged_for_flag_blind_preprocessors [OF h])
qed

text \<open>
  C8, the claim as stated fails: with a preprocessor that injects the default \<^verbatim>\<open>z: 0\<close> on
  the first submission only, the scalar-only document \<^verbatim>\<open>{a: 1}\<close> submitted once resolves
  to a tree with \<^verbatim>\<open>z\<close>, and submitted twice to a tree without it: \<open>mountOption(false)\<close>
  returns the base parsed from the second submission, not a merge.
\<close>

theorem resubmission_differs_with_first_time_default:
  "submit_then_mount (spec_env no_class no_ref)
      [Document (plain_document [(''a'', JNum 1)])] [inject_on_first] False
     = Inr (Some [(''a'', JNum 1), (''timeline'', JUndef), (''z'', JNum 0)])
   \<and> submit_then_mount (spec_env no_class no_ref)
      [Document (plain_document [(''a'', JNum 1)]), Document (plain_document [(''a'', JNum 1)])]
      [inject_on_first] False
     = Inr (Some [(''a'', JNum 1), (''timeline'', JUndef)])"
  by (simp add: run_simps)




section \<open>Reconciliation of component collections\<close>




























end
